theory Spec2Isabelle
  imports Main "HOL-Library.Sublist"
begin

section \<open>A model of the LM Studio MCP server\<close>

text \<open>
  The server registers the tools \<open>echo\<close>, \<open>lmstudio_list_models\<close>,
  \<open>lmstudio_get_current_model\<close> and \<open>lmstudio_chat_completion\<close>; the last three forward
  one HTTP request to LM Studio through \<open>makeRequest\<close>. The model follows the server
  source that resolves the base URL from the \<open>--base-url\<close> argument. An asynchronous
  function becomes a function from the environment (the command line and the outcome
  \<open>fetch\<close> has for a call) to the list of calls made to \<open>fetch\<close>, paired with the value
  returned (\<open>Inr\<close>) or the error thrown (\<open>Inl\<close>).
\<close>

section \<open>Strings, numerals and joins\<close>

text \<open>
  JavaScript strings are modelled as \<^typ>\<open>string\<close>. A character outside ASCII is written as
  its UTF-8 bytes; the handlers only concatenate strings and test them for emptiness, and
  both are independent of the encoding.
\<close>

definition nl :: string where
  "nl = [CHR 0x0A]"

definition dquote :: string where
  "dquote = [CHR 0x22]"

definition squote :: string where
  "squote = [CHR 0x27]"

definition backslash :: string where
  "backslash = [CHR 0x5C]"

text \<open>The cross mark U+274C that opens every failure text.\<close>

definition cross_mark :: string where
  "cross_mark = [CHR 0xE2, CHR 0x9D, CHR 0x8C]"

text \<open>Decimal rendering of a non-negative integer, as a template literal prints it.\<close>

fun show_nat :: "nat \<Rightarrow> string" where
  "show_nat n =
     (if n < 10 then [''0123456789'' ! n]
      else show_nat (n div 10) @ [''0123456789'' ! (n mod 10)])"

declare show_nat.simps [simp del]

definition show_int :: "int \<Rightarrow> string" where
  "show_int i = (if i < 0 then ''-'' @ show_nat (nat (- i)) else show_nat (nat i))"

text \<open>\<open>Array.prototype.join\<close> on an array of strings.\<close>

fun join :: "string \<Rightarrow> string list \<Rightarrow> string" where
  "join sep [] = []"
| "join sep [x] = x"
| "join sep (x # y # ys) = x @ sep @ join sep (y # ys)"

section \<open>JavaScript values and thrown errors\<close>

text \<open>
  The values \<open>JSON.parse\<close> produces. An object is the list of its own properties in
  enumeration order. Numbers are restricted to integers that \<open>String\<close> prints in plain
  decimal. \<open>undefined\<close> is \<open>None\<close> of the option type over these values.
\<close>

datatype json =
    JNull
  | JBool bool
  | JNum int
  | JStr string
  | JArr "json list"
  | JObj "(string \<times> json) list"

text \<open>
  A thrown value is either an \<open>Error\<close> instance with its message, or some other value,
  given by what \<open>String\<close> makes of it.
\<close>

datatype js_thrown = JsError string | NonError string

text \<open>\<open>error instanceof Error ? error.message : String(error)\<close>\<close>

fun error_text :: "js_thrown \<Rightarrow> string" where
  "error_text (JsError message) = message"
| "error_text (NonError s) = s"

definition bind_thrown :: "js_thrown + 'a \<Rightarrow> ('a \<Rightarrow> js_thrown + 'b) \<Rightarrow> js_thrown + 'b" where
  "bind_thrown m f = (case m of Inl e \<Rightarrow> Inl e | Inr v \<Rightarrow> f v)"

text \<open>\<open>try { body } catch (error) { handler }\<close>\<close>

definition try_catch :: "js_thrown + 'a \<Rightarrow> (js_thrown \<Rightarrow> js_thrown + 'a) \<Rightarrow> js_thrown + 'a" where
  "try_catch body handler = (case body of Inl e \<Rightarrow> handler e | Inr v \<Rightarrow> Inr v)"

text \<open>The first error of a list of results, left to right, or all the values.\<close>

fun sequence_thrown :: "(js_thrown + 'a) list \<Rightarrow> js_thrown + 'a list" where
  "sequence_thrown [] = Inr []"
| "sequence_thrown (Inl e # rs) = Inl e"
| "sequence_thrown (Inr v # rs) =
     (case sequence_thrown rs of Inl e \<Rightarrow> Inl e | Inr vs \<Rightarrow> Inr (v # vs))"

text \<open>Truthiness, as \<open>||\<close> and \<open>if\<close> test it.\<close>

fun truthy :: "json option \<Rightarrow> bool" where
  "truthy None = False"
| "truthy (Some JNull) = False"
| "truthy (Some (JBool b)) = b"
| "truthy (Some (JNum i)) = (i \<noteq> 0)"
| "truthy (Some (JStr s)) = (s \<noteq> [])"
| "truthy (Some (JArr xs)) = True"
| "truthy (Some (JObj kvs)) = True"

text \<open>\<open>a || b\<close> where \<open>b\<close> is a literal.\<close>

definition or_else :: "json option \<Rightarrow> json \<Rightarrow> json" where
  "or_else a b = (case a of None \<Rightarrow> b | Some v \<Rightarrow> if truthy (Some v) then v else b)"

text \<open>
  \<open>v.k\<close> for the property names the handlers read (\<open>data\<close>, \<open>model\<close>, \<open>choices\<close>,
  \<open>usage\<close>, \<open>id\<close>, \<open>name\<close>): reading a property of \<open>null\<close> throws a TypeError, an object
  gives its own property, and no prototype of an array, string, number or boolean has any
  of these names.
\<close>

fun read_prop :: "json \<Rightarrow> string \<Rightarrow> js_thrown + json option" where
  "read_prop JNull k =
     Inl (JsError (''Cannot read properties of null (reading '' @ squote @ k @ squote @ '')''))"
| "read_prop (JObj kvs) k = Inr (map_of kvs k)"
| "read_prop v k = Inr None"

text \<open>\<open>v?.k\<close> for the names \<open>message\<close> and \<open>content\<close>.\<close>

fun opt_prop :: "json option \<Rightarrow> string \<Rightarrow> json option" where
  "opt_prop (Some (JObj kvs)) k = map_of kvs k"
| "opt_prop v k = None"

text \<open>
  \<open>v?.[0]\<close>. Indexing a non-empty string gives the string of its first unit; only its
  being a string matters to what follows.
\<close>

fun opt_index0 :: "json option \<Rightarrow> json option" where
  "opt_index0 (Some (JArr xs)) = (case xs of [] \<Rightarrow> None | x # rest \<Rightarrow> Some x)"
| "opt_index0 (Some (JObj kvs)) = map_of kvs ''0''"
| "opt_index0 (Some (JStr s)) = (if s = [] then None else Some (JStr (take 1 s)))"
| "opt_index0 v = None"

text \<open>\<open>v.length === 0\<close> for a value \<open>v\<close> that is not \<open>null\<close>.\<close>

fun length_is_zero :: "json \<Rightarrow> bool" where
  "length_is_zero (JArr xs) = (length xs = 0)"
| "length_is_zero (JStr s) = (length s = 0)"
| "length_is_zero (JObj kvs) = (map_of kvs ''length'' = Some (JNum 0))"
| "length_is_zero v = False"

text \<open>
  The conversion to string of a template literal. An array joins its elements with commas,
  \<open>null\<close> elements printing empty; an object prints \<open>[object Object]\<close> unless it has a
  property \<open>toString\<close> of its own, which parsed JSON cannot make callable, and then the
  conversion throws.
\<close>

fun to_string :: "json \<Rightarrow> js_thrown + string" where
  "to_string JNull = Inr ''null''"
| "to_string (JBool b) = Inr (if b then ''true'' else ''false'')"
| "to_string (JNum i) = Inr (show_int i)"
| "to_string (JStr s) = Inr s"
| "to_string (JArr xs) =
     (case sequence_thrown (map (\<lambda>x. if x = JNull then Inr [] else to_string x) xs) of
        Inl e \<Rightarrow> Inl e
      | Inr parts \<Rightarrow> Inr (join '','' parts))"
| "to_string (JObj kvs) =
     (if map_of kvs ''toString'' \<noteq> None
      then Inl (JsError ''Cannot convert object to primitive value'')
      else Inr ''[object Object]'')"

section \<open>JSON.stringify\<close>

definition hex_digit :: "nat \<Rightarrow> char" where
  "hex_digit n = ''0123456789abcdef'' ! n"

text \<open>One character of a quoted JSON string.\<close>

definition quote_char :: "char \<Rightarrow> string" where
  "quote_char c =
     (if c = CHR 0x08 then backslash @ ''b''
      else if c = CHR 0x09 then backslash @ ''t''
      else if c = CHR 0x0A then backslash @ ''n''
      else if c = CHR 0x0C then backslash @ ''f''
      else if c = CHR 0x0D then backslash @ ''r''
      else if c = CHR 0x22 then backslash @ dquote
      else if c = CHR 0x5C then backslash @ backslash
      else if (of_char c :: nat) < 32
        then backslash @ ''u00'' @ [hex_digit (of_char c div 16), hex_digit (of_char c mod 16)]
      else [c])"

definition quote :: "string \<Rightarrow> string" where
  "quote s = dquote @ concat (map quote_char s) @ dquote"

text \<open>
  \<open>JSON.stringify(value, null, gap)\<close> at the current indentation; the empty gap is the
  compact form of \<open>JSON.stringify(value)\<close>.
\<close>

fun serialize :: "string \<Rightarrow> string \<Rightarrow> json \<Rightarrow> string" where
  "serialize gap indent JNull = ''null''"
| "serialize gap indent (JBool b) = (if b then ''true'' else ''false'')"
| "serialize gap indent (JNum i) = show_int i"
| "serialize gap indent (JStr s) = quote s"
| "serialize gap indent (JArr xs) =
     (if xs = [] then ''[]''
      else if gap = [] then ''['' @ join '','' (map (serialize gap (indent @ gap)) xs) @ '']''
      else ''['' @ nl @ (indent @ gap)
           @ join ('','' @ nl @ (indent @ gap)) (map (serialize gap (indent @ gap)) xs)
           @ nl @ indent @ '']'')"
| "serialize gap indent (JObj kvs) =
     (if kvs = [] then ''{}''
      else if gap = []
        then ''{'' @ join '','' (map (\<lambda>kv. quote (fst kv) @ '':''
                                     @ serialize gap (indent @ gap) (snd kv)) kvs) @ ''}''
      else ''{'' @ nl @ (indent @ gap)
           @ join ('','' @ nl @ (indent @ gap))
               (map (\<lambda>kv. quote (fst kv) @ '': '' @ serialize gap (indent @ gap) (snd kv)) kvs)
           @ nl @ indent @ ''}'')"

definition json_stringify :: "json \<Rightarrow> string" where
  "json_stringify v = serialize [] [] v"

definition json_stringify_2 :: "json \<Rightarrow> string" where
  "json_stringify_2 v = serialize ''  '' [] v"

section \<open>The outbound HTTP call\<close>

text \<open>
  The \<open>RequestOptions\<close> interface; \<open>None\<close> is an absent key. The field \<open>method\<close> is
  named \<open>http_method\<close> here.
\<close>

record RequestOptions =
  http_method :: "string option"
  headers :: "(string \<times> string) list option"
  body :: "string option"

definition no_options :: RequestOptions where
  "no_options = \<lparr>http_method = None, headers = None, body = None\<rparr>"

text \<open>What \<open>fetch\<close> is called with: the URL and the init object.\<close>

record fetch_call =
  url :: string
  init_headers :: "(string \<times> string) list"
  init_method :: "string option"
  init_body :: "string option"

text \<open>
  What the handlers observe of a \<open>Response\<close>: the status line and the outcome of
  \<open>response.json()\<close>.
\<close>

record Response =
  status :: nat
  statusText :: string
  json_outcome :: "js_thrown + json"

text \<open>The \<open>ok\<close> getter of the fetch library: a status in the range 200 to 299.\<close>

definition ok :: "Response \<Rightarrow> bool" where
  "ok response = (200 \<le> status response \<and> status response < 300)"

text \<open>
  The surroundings of an invocation: \<open>process.argv\<close>, and the network as the outcome
  \<open>fetch\<close> has for a call, a rejection (\<open>Inl\<close>) or a response.
\<close>

record env =
  argv :: "string list"
  fetch :: "fetch_call \<Rightarrow> js_thrown + Response"

definition LM_STUDIO_BASE_URL :: string where
  "LM_STUDIO_BASE_URL = ''http://localhost:1234''"

definition V1 :: string where
  "V1 = ''/v1''"

text \<open>\<open>Array.prototype.findIndex\<close>; \<open>None\<close> is the result \<open>-1\<close>.\<close>

fun findIndex :: "('a \<Rightarrow> bool) \<Rightarrow> 'a list \<Rightarrow> nat option" where
  "findIndex P [] = None"
| "findIndex P (x # xs) = (if P x then Some 0 else map_option Suc (findIndex P xs))"

text \<open>The first three statements of \<open>makeRequest\<close>; \<open>None\<close> is \<open>null\<close>.\<close>

definition baseUrlFromArgs :: "string list \<Rightarrow> string option" where
  "baseUrlFromArgs process_argv =
     (let args = drop 2 process_argv in
      case findIndex (\<lambda>arg. arg = ''--base-url'') args of
        None \<Rightarrow> None
      | Some baseUrlIndex \<Rightarrow>
          if baseUrlIndex + 1 < length args then Some (args ! (baseUrlIndex + 1)) else None)"

text \<open>\<open>`${baseUrlFromArgs || LM_STUDIO_BASE_URL}${V1}${endpoint}`\<close>\<close>

definition request_url :: "string list \<Rightarrow> string \<Rightarrow> string" where
  "request_url process_argv endpoint =
     (case baseUrlFromArgs process_argv of
        None \<Rightarrow> LM_STUDIO_BASE_URL
      | Some u \<Rightarrow> if u \<noteq> [] then u else LM_STUDIO_BASE_URL) @ V1 @ endpoint"

text \<open>
  The init object \<open>{headers: {'Content-Type': ..., ...options.headers}, ...options}\<close>:
  the spread of \<open>options\<close> comes last, so a \<open>headers\<close> key of \<open>options\<close> replaces the
  merged headers.
\<close>

definition fetch_init :: "string \<Rightarrow> RequestOptions \<Rightarrow> fetch_call" where
  "fetch_init u options =
     \<lparr>url = u,
      init_headers = (case headers options of
                        None \<Rightarrow> [(''Content-Type'', ''application/json'')]
                      | Some h \<Rightarrow> h),
      init_method = http_method options,
      init_body = body options\<rparr>"

text \<open>
  \<open>makeRequest\<close> returns the calls it made to \<open>fetch\<close> together with its outcome: the
  parsed JSON (\<open>Inr\<close>) or the error it throws (\<open>Inl\<close>).
\<close>

definition makeRequest :: "env \<Rightarrow> string \<Rightarrow> RequestOptions \<Rightarrow> fetch_call list \<times> (js_thrown + json)" where
  "makeRequest e endpoint options =
     (let call = fetch_init (request_url (argv e) endpoint) options in
      ([call],
       case fetch e call of
         Inl error \<Rightarrow> Inl (JsError (''LM Studio API request failed: '' @ error_text error))
       | Inr response \<Rightarrow>
           if \<not> ok response
           then Inl (JsError (''LM Studio API request failed: HTTP '' @ show_nat (status response)
                              @ '': '' @ statusText response))
           else (case json_outcome response of
                   Inr v \<Rightarrow> Inr v
                 | Inl error \<Rightarrow>
                     Inl (JsError (''LM Studio API response parsing failed: ''
                                   @ error_text error)))))"

section \<open>Tool results\<close>

record content_block =
  ctype :: string
  ctext :: string

record tool_result =
  content :: "content_block list"

definition text_result :: "string \<Rightarrow> tool_result" where
  "text_result t = \<lparr>content = [\<lparr>ctype = ''text'', ctext = t\<rparr>]\<rparr>"

section \<open>The handlers\<close>

text \<open>\<open>echo\<close>\<close>

definition echo_handler :: "string \<Rightarrow> fetch_call list \<times> (js_thrown + tool_result)" where
  "echo_handler t = ([], Inr (text_result (''Echo: '' @ t)))"

text \<open>\<open>lmstudio_list_models\<close>\<close>

text \<open>\<open>model.id || model.name || 'Unknown Model'\<close>, converted by the template literal.\<close>

definition model_label :: "json \<Rightarrow> js_thrown + string" where
  "model_label model =
     bind_thrown (read_prop model ''id'') (\<lambda>model_id.
     bind_thrown (if truthy model_id then Inr model_id else read_prop model ''name'') (\<lambda>v.
       to_string (or_else v (JStr ''Unknown Model''))))"

text \<open>The callback of \<open>models.map\<close>: \<open>`${index + 1}. ${...}`\<close>\<close>

definition model_line :: "nat \<times> json \<Rightarrow> js_thrown + string" where
  "model_line im =
     bind_thrown (model_label (snd im)) (\<lambda>label. Inr (show_nat (fst im + 1) @ ''. '' @ label))"

definition no_models_text :: string where
  "no_models_text =
     ''No models found in LM Studio. Make sure you have loaded models in LM Studio.''"

text \<open>The \<open>try\<close> block after \<open>makeRequest\<close> has returned \<open>response\<close>.\<close>

definition list_models_body :: "json \<Rightarrow> js_thrown + tool_result" where
  "list_models_body response =
     bind_thrown (read_prop response ''data'') (\<lambda>data.
       let models = or_else data (JArr []) in
       if length_is_zero models then Inr (text_result no_models_text)
       else (case models of
               JArr xs \<Rightarrow>
                 bind_thrown (sequence_thrown (map model_line (enumerate 0 xs))) (\<lambda>lines.
                   Inr (text_result (''Available LM Studio Models ('' @ show_nat (length xs)
                                     @ '' total):'' @ nl @ nl @ join nl lines)))
             | _ \<Rightarrow> Inl (JsError ''models.map is not a function'')))"

definition list_models_failure :: "js_thrown \<Rightarrow> tool_result" where
  "list_models_failure error =
     text_result (cross_mark @ '' Failed to list models'' @ nl @ ''Error: '' @ error_text error)"

definition list_models_handler :: "env \<Rightarrow> fetch_call list \<times> (js_thrown + tool_result)" where
  "list_models_handler e =
     (let (calls, response) = makeRequest e ''/models'' no_options in
      (calls, try_catch (bind_thrown response list_models_body)
                (\<lambda>error. Inr (list_models_failure error))))"

text \<open>The chat messages and the request body built from them.\<close>

datatype Role = System | User | Assistant

fun role_name :: "Role \<Rightarrow> string" where
  "role_name System = ''system''"
| "role_name User = ''user''"
| "role_name Assistant = ''assistant''"

record ChatMessage =
  role :: Role
  mcontent :: string

definition message_json :: "ChatMessage \<Rightarrow> json" where
  "message_json m = JObj [(''role'', JStr (role_name (role m))), (''content'', JStr (mcontent m))]"

text \<open>The object given to \<open>JSON.stringify\<close> for the body of \<open>POST /chat/completions\<close>.\<close>

definition chat_request :: "ChatMessage list \<Rightarrow> json" where
  "chat_request messages =
     JObj [(''model'', JStr ''local-model''), (''messages'', JArr (map message_json messages))]"

definition chat_options :: "ChatMessage list \<Rightarrow> RequestOptions" where
  "chat_options messages =
     \<lparr>http_method = Some ''POST'', headers = None,
      body = Some (json_stringify (chat_request messages))\<rparr>"

text \<open>\<open>response.choices?.[0]?.message?.content\<close>\<close>

definition first_choice_content :: "json \<Rightarrow> js_thrown + json option" where
  "first_choice_content response =
     bind_thrown (read_prop response ''choices'') (\<lambda>choices.
       Inr (opt_prop (opt_prop (opt_index0 choices) ''message'') ''content''))"

text \<open>\<open>lmstudio_get_current_model\<close>\<close>

text \<open>\<open>const modelInfo = response.model || "unknown"\<close>\<close>

definition current_modelInfo :: "json \<Rightarrow> js_thrown + json" where
  "current_modelInfo response =
     bind_thrown (read_prop response ''model'') (\<lambda>m. Inr (or_else m (JStr ''unknown'')))"

text \<open>\<open>const message = response.choices?.[0]?.message?.content || "No response"\<close>\<close>

definition current_message :: "json \<Rightarrow> js_thrown + json" where
  "current_message response =
     bind_thrown (first_choice_content response) (\<lambda>c. Inr (or_else c (JStr ''No response'')))"

definition get_current_model_body :: "json \<Rightarrow> js_thrown + tool_result" where
  "get_current_model_body response =
     bind_thrown (current_modelInfo response) (\<lambda>modelInfo.
     bind_thrown (current_message response) (\<lambda>message.
     bind_thrown (to_string modelInfo) (\<lambda>modelInfo_text.
     bind_thrown (to_string message) (\<lambda>message_text.
       Inr (text_result (''Current Model: '' @ modelInfo_text @ nl @ nl
                         @ ''Model Response: '' @ message_text))))))"

definition loaded_note :: string where
  "loaded_note = nl @ nl @ ''Note: Make sure a model is loaded and running in LM Studio.''"

definition get_current_model_failure :: "js_thrown \<Rightarrow> tool_result" where
  "get_current_model_failure error =
     text_result (cross_mark @ '' Failed to get current model'' @ nl @ ''Error: ''
                  @ error_text error @ loaded_note)"

definition get_current_model_handler :: "env \<Rightarrow> fetch_call list \<times> (js_thrown + tool_result)" where
  "get_current_model_handler e =
     (let (calls, response) =
            makeRequest e ''/chat/completions''
              (chat_options [\<lparr>role = User, mcontent = ''What model are you?''\<rparr>]) in
      (calls, try_catch (bind_thrown response get_current_model_body)
                (\<lambda>error. Inr (get_current_model_failure error))))"

text \<open>\<open>lmstudio_chat_completion\<close>\<close>

text \<open>The \<open>messages\<close> array after the two pushes; \<open>None\<close> is an absent \<open>system_prompt\<close>.\<close>

definition chat_messages :: "string \<Rightarrow> string option \<Rightarrow> ChatMessage list" where
  "chat_messages prompt system_prompt =
     (case system_prompt of
        None \<Rightarrow> []
      | Some s \<Rightarrow> if s \<noteq> [] then [\<lparr>role = System, mcontent = s\<rparr>] else [])
     @ [\<lparr>role = User, mcontent = prompt\<rparr>]"

text \<open>
  \<open>const completion = response.choices?.[0]?.message?.content || "No response generated"\<close>
\<close>

definition chat_completion :: "json \<Rightarrow> js_thrown + json" where
  "chat_completion response =
     bind_thrown (first_choice_content response) (\<lambda>c.
       Inr (or_else c (JStr ''No response generated'')))"

text \<open>\<open>const model = response.model || "unknown"\<close>\<close>

definition chat_model :: "json \<Rightarrow> js_thrown + json" where
  "chat_model response =
     bind_thrown (read_prop response ''model'') (\<lambda>m. Inr (or_else m (JStr ''unknown'')))"

text \<open>\<open>const usage = response.usage || {}\<close>\<close>

definition chat_usage :: "json \<Rightarrow> js_thrown + json" where
  "chat_usage response =
     bind_thrown (read_prop response ''usage'') (\<lambda>u. Inr (or_else u (JObj [])))"

definition chat_completion_body :: "json \<Rightarrow> js_thrown + tool_result" where
  "chat_completion_body response =
     bind_thrown (chat_completion response) (\<lambda>completion.
     bind_thrown (chat_model response) (\<lambda>model.
     bind_thrown (chat_usage response) (\<lambda>usage.
     bind_thrown (to_string model) (\<lambda>model_text.
     bind_thrown (to_string completion) (\<lambda>completion_text.
       Inr (text_result (''**Model:** '' @ model_text @ nl @ nl @ ''**Response:**'' @ nl
                         @ completion_text @ nl @ nl @ ''**Usage:** ''
                         @ json_stringify_2 usage)))))))"

definition chat_completion_failure :: "js_thrown \<Rightarrow> tool_result" where
  "chat_completion_failure error =
     text_result (cross_mark @ '' Failed to generate completion'' @ nl @ ''Error: ''
                  @ error_text error @ loaded_note)"

definition chat_completion_handler ::
    "env \<Rightarrow> string \<Rightarrow> string option \<Rightarrow> fetch_call list \<times> (js_thrown + tool_result)" where
  "chat_completion_handler e prompt system_prompt =
     (let (calls, response) =
            makeRequest e ''/chat/completions'' (chat_options (chat_messages prompt system_prompt)) in
      (calls, try_catch (bind_thrown response chat_completion_body)
                (\<lambda>error. Inr (chat_completion_failure error))))"

section \<open>The registered tools\<close>

text \<open>A validated invocation of one of the four tools registered with the server.\<close>

datatype tool_call =
    Echo string
  | ListModels
  | GetCurrentModel
  | ChatCompletion string "string option"

fun tool_name :: "tool_call \<Rightarrow> string" where
  "tool_name (Echo t) = ''echo''"
| "tool_name ListModels = ''lmstudio_list_models''"
| "tool_name GetCurrentModel = ''lmstudio_get_current_model''"
| "tool_name (ChatCompletion prompt system_prompt) = ''lmstudio_chat_completion''"

fun invoke :: "env \<Rightarrow> tool_call \<Rightarrow> fetch_call list \<times> (js_thrown + tool_result)" where
  "invoke e (Echo t) = echo_handler t"
| "invoke e ListModels = list_models_handler e"
| "invoke e GetCurrentModel = get_current_model_handler e"
| "invoke e (ChatCompletion prompt system_prompt) = chat_completion_handler e prompt system_prompt"

section \<open>Notions the properties are stated with\<close>




text \<open>
  A field of a parsed value as the claims speak of it: the property of an object under
  that name; any other value has no such field. It is absent when this is \<open>None\<close>.
\<close>

fun field :: "json \<Rightarrow> string \<Rightarrow> json option" where
  "field (JObj kvs) k = map_of kvs k"
| "field v k = None"

text \<open>
  The choices/message/content chain of a response is missing or empty: \<open>choices\<close> is
  absent, \<open>null\<close> or an empty array, or its first element has a \<open>message\<close> that is
  absent or whose \<open>content\<close> is absent, \<open>null\<close> or the empty string.
\<close>

fun content_empty :: "json option \<Rightarrow> bool" where
  "content_empty None = True"
| "content_empty (Some JNull) = True"
| "content_empty (Some (JStr s)) = (s = [])"
| "content_empty (Some other) = False"

fun message_empty :: "json option \<Rightarrow> bool" where
  "message_empty None = True"
| "message_empty (Some message) = content_empty (field message ''content'')"

fun choices_empty :: "json option \<Rightarrow> bool" where
  "choices_empty None = True"
| "choices_empty (Some JNull) = True"
| "choices_empty (Some (JArr [])) = True"
| "choices_empty (Some (JArr (choice # rest))) = message_empty (field choice ''message'')"
| "choices_empty (Some other) = False"

definition reply_missing :: "json \<Rightarrow> bool" where
  "reply_missing response = choices_empty (field response ''choices'')"

text \<open>A network that answers every call with the same response.\<close>

definition always_responds :: "Response \<Rightarrow> fetch_call \<Rightarrow> js_thrown + Response" where
  "always_responds response call = Inr response"

section \<open>The calls each handler makes\<close>

lemma makeRequest_calls:
  "fst (makeRequest e endpoint options) = [fetch_init (request_url (argv e) endpoint) options]"
  by (simp add: makeRequest_def Let_def)

lemma list_models_calls:
  "fst (list_models_handler e) = fst (makeRequest e ''/models'' no_options)"
  by (simp add: list_models_handler_def split: prod.splits)

lemma get_current_model_calls:
  "fst (get_current_model_handler e) =
     fst (makeRequest e ''/chat/completions''
            (chat_options [\<lparr>role = User, mcontent = ''What model are you?''\<rparr>]))"
  by (simp add: get_current_model_handler_def split: prod.splits)

lemma chat_completion_calls:
  "fst (chat_completion_handler e prompt system_prompt) =
     fst (makeRequest e ''/chat/completions'' (chat_options (chat_messages prompt system_prompt)))"
  by (simp add: chat_completion_handler_def split: prod.splits)

lemma chat_completion_call:
  "fst (chat_completion_handler e prompt system_prompt) =
     [\<lparr>url = request_url (argv e) ''/chat/completions'',
       init_headers = [(''Content-Type'', ''application/json'')],
       init_method = Some ''POST'',
       init_body = Some (json_stringify (chat_request (chat_messages prompt system_prompt)))\<rparr>]"
  by (simp add: chat_completion_calls makeRequest_calls fetch_init_def chat_options_def)

lemma makeRequest_url:
  "map url (fst (makeRequest e endpoint options)) = [request_url (argv e) endpoint]"
  by (simp add: makeRequest_def Let_def fetch_init_def)

section \<open>The command line\<close>

lemma findIndex_none: "\<forall>x \<in> set xs. \<not> P x \<Longrightarrow> findIndex P xs = None"
  by (induction xs) auto

lemma findIndex_first:
  "\<forall>y \<in> set pre. \<not> P y \<Longrightarrow> P x \<Longrightarrow> findIndex P (pre @ x # rest) = Some (length pre)"
  by (induction pre) auto

lemma baseUrlFromArgs_absent:
  assumes "''--base-url'' \<notin> set (drop 2 process_argv)"
  shows "baseUrlFromArgs process_argv = None"
proof -
  have "findIndex (\<lambda>arg. arg = ''--base-url'') (drop 2 process_argv) = None"
    using assms by (intro findIndex_none) auto
  then show ?thesis by (simp add: baseUrlFromArgs_def)
qed

lemma baseUrlFromArgs_value:
  assumes "drop 2 process_argv = pre @ [''--base-url'', v] @ post"
    and "''--base-url'' \<notin> set pre"
  shows "baseUrlFromArgs process_argv = Some v"
proof -
  have "findIndex (\<lambda>arg. arg = ''--base-url'') (pre @ ''--base-url'' # (v # post))
          = Some (length pre)"
    using assms(2) by (intro findIndex_first) auto
  then show ?thesis using assms(1) by (simp add: baseUrlFromArgs_def nth_append)
qed

lemma baseUrlFromArgs_last:
  assumes "drop 2 process_argv = pre @ [''--base-url'']" and "''--base-url'' \<notin> set pre"
  shows "baseUrlFromArgs process_argv = None"
proof -
  have "findIndex (\<lambda>arg. arg = ''--base-url'') (pre @ ''--base-url'' # []) = Some (length pre)"
    using assms(2) by (intro findIndex_first) auto
  then show ?thesis using assms(1) by (simp add: baseUrlFromArgs_def)
qed

text \<open>
  C3, as the code has it. The one call \<open>makeRequest\<close> makes goes to the URL resolved from
  the command-line arguments (\<open>process.argv\<close> without its first two entries): when no
  argument is \<open>--base-url\<close>, the URL is \<open>http://localhost:1234/v1\<close> followed by the endpoint;
  when the first \<open>--base-url\<close> is followed by a value, the URL is that value followed by
  \<open>/v1\<close> and the endpoint if the value is not the empty string, and the default URL if it
  is empty; when the first \<open>--base-url\<close> is the last argument, the URL is the default one.
\<close>

theorem base_url_resolution:
  "map url (fst (makeRequest e endpoint options)) = [request_url (argv e) endpoint] \<and>
   (''--base-url'' \<notin> set (drop 2 (argv e)) \<longrightarrow>
      request_url (argv e) endpoint = ''http://localhost:1234/v1'' @ endpoint) \<and>
   (\<forall>pre v post.
      drop 2 (argv e) = pre @ [''--base-url'', v] @ post \<and> ''--base-url'' \<notin> set pre \<longrightarrow>
      request_url (argv e) endpoint
        = (if v = [] then ''http://localhost:1234/v1'' @ endpoint else v @ ''/v1'' @ endpoint)) \<and>
   (\<forall>pre. drop 2 (argv e) = pre @ [''--base-url''] \<and> ''--base-url'' \<notin> set pre \<longrightarrow>
      request_url (argv e) endpoint = ''http://localhost:1234/v1'' @ endpoint)"
  by (auto simp: makeRequest_url request_url_def baseUrlFromArgs_absent baseUrlFromArgs_value
        baseUrlFromArgs_last LM_STUDIO_BASE_URL_def V1_def)

theorem base_url_resolution_witness:
  "drop 2 [''node'', ''index.js'', ''--base-url'', ''http://host:9999'']
     = [] @ [''--base-url'', ''http://host:9999''] @ [] \<and>
   ''--base-url'' \<notin> set ([] :: string list) \<and>
   map url (fst (makeRequest
       \<lparr>argv = [''node'', ''index.js'', ''--base-url'', ''http://host:9999''],
        fetch = (\<lambda>c. Inl (NonError ''offline''))\<rparr> ''/models'' no_options))
     = [''http://host:9999/v1/models''] \<and>
   ''--base-url'' \<notin> set (drop 2 [''node'', ''index.js'']) \<and>
   map url (fst (makeRequest
       \<lparr>argv = [''node'', ''index.js''], fetch = (\<lambda>c. Inl (NonError ''offline''))\<rparr>
       ''/models'' no_options))
     = [''http://localhost:1234/v1/models'']"
proof -
  let ?given = "\<lparr>argv = [''node'', ''index.js'', ''--base-url'', ''http://host:9999''],
                 fetch = (\<lambda>c. Inl (NonError ''offline''))\<rparr>"
  let ?plain = "\<lparr>argv = [''node'', ''index.js''], fetch = (\<lambda>c. Inl (NonError ''offline''))\<rparr>"
  note given = base_url_resolution [of ?given "''/models''" no_options]
  note plain = base_url_resolution [of ?plain "''/models''" no_options]
  have "request_url (argv ?given) ''/models'' = ''http://host:9999/v1/models''"
    using given [THEN conjunct2, THEN conjunct2, THEN conjunct1, rule_format,
        of "[]" "''http://host:9999''" "[]"]
    by simp
  moreover have "request_url (argv ?plain) ''/models'' = ''http://localhost:1234/v1/models''"
    using plain [THEN conjunct2, THEN conjunct1] by simp
  ultimately show ?thesis
    using given [THEN conjunct1] plain [THEN conjunct1] by simp
qed

text \<open>
  C3 as stated fails when the value after \<open>--base-url\<close> is the empty string: the request
  goes to the default base URL, not to the empty value followed by \<open>/v1\<close> and the endpoint.
\<close>

theorem base_url_empty_value:
  "request_url [''node'', ''index.js'', ''--base-url'', []] ''/models''
     = ''http://localhost:1234/v1/models'' \<and>
   request_url [''node'', ''index.js'', ''--base-url'', []] ''/models''
     \<noteq> [] @ ''/v1'' @ ''/models''"
  by (simp add: request_url_def baseUrlFromArgs_def LM_STUDIO_BASE_URL_def V1_def)

text \<open>
  C10, as the code has it. When the first \<open>--base-url\<close> is the last command-line argument,
  \<open>baseUrlFromArgs\<close> is \<open>null\<close> and the one call \<open>makeRequest\<close> makes goes to the default
  base URL \<open>http://localhost:1234\<close> followed by \<open>/v1\<close> and the endpoint.
\<close>

theorem base_url_without_value:
  assumes "drop 2 (argv e) = pre @ [''--base-url'']" and "''--base-url'' \<notin> set pre"
  shows "baseUrlFromArgs (argv e) = None \<and>
         map url (fst (makeRequest e endpoint options))
           = [''http://localhost:1234'' @ ''/v1'' @ endpoint]"
  using assms
  by (simp add: makeRequest_url request_url_def baseUrlFromArgs_last LM_STUDIO_BASE_URL_def V1_def)

theorem base_url_without_value_witness:
  "drop 2 [''node'', ''index.js'', ''--base-url''] = [] @ [''--base-url''] \<and>
   ''--base-url'' \<notin> set ([] :: string list) \<and>
   map url (fst (makeRequest
       \<lparr>argv = [''node'', ''index.js'', ''--base-url''],
        fetch = (\<lambda>c. Inl (NonError ''offline''))\<rparr> ''/models'' no_options))
     = [''http://localhost:1234/v1/models'']"
  using base_url_without_value
      [of "\<lparr>argv = [''node'', ''index.js'', ''--base-url''],
            fetch = (\<lambda>c. Inl (NonError ''offline''))\<rparr>" "[]" "''/models''" no_options]
  by simp

text \<open>
  C10 as stated fails when \<open>--base-url\<close> is the final argument, with no value after it,
  but also occurs earlier: the first occurrence decides, and what follows it is taken as
  the base URL, be it a URL or the flag itself.
\<close>

theorem base_url_last_after_earlier_flag:
  "last (drop 2 [''node'', ''index.js'', ''--base-url'', ''http://h:1'', ''--base-url''])
     = ''--base-url'' \<and>
   request_url [''node'', ''index.js'', ''--base-url'', ''http://h:1'', ''--base-url''] ''/models''
     = ''http://h:1/v1/models'' \<and>
   request_url [''node'', ''index.js'', ''--base-url'', ''http://h:1'', ''--base-url''] ''/models''
     \<noteq> ''http://localhost:1234/v1/models'' \<and>
   last (drop 2 [''node'', ''index.js'', ''--base-url'', ''--base-url'']) = ''--base-url'' \<and>
   request_url [''node'', ''index.js'', ''--base-url'', ''--base-url''] ''/models''
     = ''--base-url/v1/models''"
  by (simp add: request_url_def baseUrlFromArgs_def LM_STUDIO_BASE_URL_def V1_def)

section \<open>The messages of a chat completion\<close>

text \<open>
  C2, as the code has it. For every prompt \<open>p\<close> and every system prompt \<open>s\<close> that is not
  the empty string, \<open>lmstudio_chat_completion\<close> makes one call, a POST to
  \<open>/chat/completions\<close>, whose body is the serialisation of the model name and the message
  list \<open>[{role: system, content: s}, {role: user, content: p}]\<close>; without a system prompt
  the message list is the single entry \<open>{role: user, content: p}\<close>.
\<close>

theorem chat_completion_forwards_messages:
  "(s \<noteq> [] \<longrightarrow>
      chat_messages p (Some s) = [\<lparr>role = System, mcontent = s\<rparr>, \<lparr>role = User, mcontent = p\<rparr>] \<and>
      fst (chat_completion_handler e p (Some s)) =
        [\<lparr>url = request_url (argv e) ''/chat/completions'',
          init_headers = [(''Content-Type'', ''application/json'')],
          init_method = Some ''POST'',
          init_body = Some (json_stringify (JObj
            [(''model'', JStr ''local-model''),
             (''messages'', JArr [JObj [(''role'', JStr ''system''), (''content'', JStr s)],
                                  JObj [(''role'', JStr ''user''), (''content'', JStr p)]])]))\<rparr>]) \<and>
   chat_messages p None = [\<lparr>role = User, mcontent = p\<rparr>] \<and>
   fst (chat_completion_handler e p None) =
     [\<lparr>url = request_url (argv e) ''/chat/completions'',
       init_headers = [(''Content-Type'', ''application/json'')],
       init_method = Some ''POST'',
       init_body = Some (json_stringify (JObj
         [(''model'', JStr ''local-model''),
          (''messages'', JArr [JObj [(''role'', JStr ''user''), (''content'', JStr p)]])]))\<rparr>]"
  by (simp add: chat_completion_call chat_messages_def chat_request_def message_json_def)

theorem chat_completion_forwards_messages_witness:
  "''be brief'' \<noteq> [] \<and>
   map init_body (fst (chat_completion_handler
       \<lparr>argv = [''node'', ''index.js''], fetch = (\<lambda>c. Inl (NonError ''offline''))\<rparr>
       ''hi'' (Some ''be brief''))) =
     [Some (''{'' @ dquote @ ''model'' @ dquote @ '':'' @ dquote @ ''local-model'' @ dquote @ '',''
            @ dquote @ ''messages'' @ dquote @ '':[''
            @ ''{'' @ dquote @ ''role'' @ dquote @ '':'' @ dquote @ ''system'' @ dquote @ '',''
                   @ dquote @ ''content'' @ dquote @ '':'' @ dquote @ ''be brief'' @ dquote @ ''},''
            @ ''{'' @ dquote @ ''role'' @ dquote @ '':'' @ dquote @ ''user'' @ dquote @ '',''
                   @ dquote @ ''content'' @ dquote @ '':'' @ dquote @ ''hi'' @ dquote @ ''}]}'')]"
  using chat_completion_forwards_messages [of "''be brief''" "''hi''"
      "\<lparr>argv = [''node'', ''index.js''], fetch = (\<lambda>c. Inl (NonError ''offline''))\<rparr>"]
  by (simp add: json_stringify_def quote_def quote_char_def dquote_def)

text \<open>
  C2 as stated fails for the system prompt that is provided and empty: the message list
  is then the user message alone, not the system message followed by the user message.
\<close>

theorem empty_system_prompt_not_forwarded:
  "chat_messages ''hi'' (Some []) = [\<lparr>role = User, mcontent = ''hi''\<rparr>] \<and>
   chat_messages ''hi'' (Some [])
     \<noteq> [\<lparr>role = System, mcontent = []\<rparr>, \<lparr>role = User, mcontent = ''hi''\<rparr>]"
  by (simp add: chat_messages_def)

text \<open>
  C8. With a system prompt that is provided and equal to the empty string, the message
  list is the user message alone, and the call made is the very call made when no system
  prompt is provided: the handler tests the value for truthiness.
\<close>

theorem empty_system_prompt_omitted:
  "chat_messages p (Some []) = [\<lparr>role = User, mcontent = p\<rparr>] \<and>
   fst (chat_completion_handler e p (Some [])) =
     [\<lparr>url = request_url (argv e) ''/chat/completions'',
       init_headers = [(''Content-Type'', ''application/json'')],
       init_method = Some ''POST'',
       init_body = Some (json_stringify (JObj
         [(''model'', JStr ''local-model''),
          (''messages'', JArr [JObj [(''role'', JStr ''user''), (''content'', JStr p)]])]))\<rparr>] \<and>
   fst (chat_completion_handler e p (Some [])) = fst (chat_completion_handler e p None)"
  by (simp add: chat_completion_call chat_messages_def chat_request_def message_json_def)

section \<open>The outcomes of the forwarder\<close>

text \<open>
  C5. \<open>makeRequest\<close> makes one call to \<open>fetch\<close> and has exactly one of four outcomes.
  If \<open>fetch\<close> rejects, it throws a new error whose message is
  \<open>LM Studio API request failed: \<close> followed by the text of the rejection, and not the
  rejection itself. If the response has a status outside 200 to 299, it throws an error
  whose message carries the status code and the status text. If the status is in range
  and the body does not parse, it throws an error whose message is
  \<open>LM Studio API response parsing failed: \<close> followed by the text of the parse error.
  Otherwise it returns the parsed JSON value.
\<close>

theorem makeRequest_outcomes:
  "\<exists>call. fst (makeRequest e endpoint options) = [call] \<and>
     ((\<exists>x. fetch e call = Inl x \<and>
           snd (makeRequest e endpoint options)
             = Inl (JsError (''LM Studio API request failed: '' @ error_text x)) \<and>
           snd (makeRequest e endpoint options) \<noteq> Inl x) \<or>
      (\<exists>r. fetch e call = Inr r \<and> (status r < 200 \<or> 300 \<le> status r) \<and>
           snd (makeRequest e endpoint options)
             = Inl (JsError (''LM Studio API request failed: HTTP '' @ show_nat (status r)
                             @ '': '' @ statusText r))) \<or>
      (\<exists>r x. fetch e call = Inr r \<and> 200 \<le> status r \<and> status r < 300 \<and>
           json_outcome r = Inl x \<and>
           snd (makeRequest e endpoint options)
             = Inl (JsError (''LM Studio API response parsing failed: '' @ error_text x))) \<or>
      (\<exists>r v. fetch e call = Inr r \<and> 200 \<le> status r \<and> status r < 300 \<and>
           json_outcome r = Inr v \<and>
           snd (makeRequest e endpoint options) = Inr v))"
proof -
  let ?call = "fetch_init (request_url (argv e) endpoint) options"
  have calls: "fst (makeRequest e endpoint options) = [?call]"
    by (simp add: makeRequest_calls)
  show ?thesis
  proof (cases "fetch e ?call")
    case (Inl x)
    have "JsError (''LM Studio API request failed: '' @ error_text x) \<noteq> x"
      by (cases x) simp_all
    with Inl calls show ?thesis
      by (simp add: makeRequest_def Let_def)
  next
    case (Inr r)
    show ?thesis
    proof (cases "json_outcome r")
      case (Inl x)
      with Inr calls show ?thesis
        by (auto simp: makeRequest_def Let_def ok_def)
    next
      case inner: (Inr v)
      with Inr calls show ?thesis
        by (auto simp: makeRequest_def Let_def ok_def)
    qed
  qed
qed

section \<open>Errors of the forwarder become text\<close>




lemma list_models_result:
  "snd (list_models_handler e) =
     try_catch (bind_thrown (snd (makeRequest e ''/models'' no_options)) list_models_body)
       (\<lambda>error. Inr (list_models_failure error))"
  by (simp add: list_models_handler_def split: prod.splits)

lemma get_current_model_result:
  "snd (get_current_model_handler e) =
     try_catch
       (bind_thrown
          (snd (makeRequest e ''/chat/completions''
                  (chat_options [\<lparr>role = User, mcontent = ''What model are you?''\<rparr>])))
          get_current_model_body)
       (\<lambda>error. Inr (get_current_model_failure error))"
  by (simp add: get_current_model_handler_def split: prod.splits)

lemma chat_completion_result:
  "snd (chat_completion_handler e prompt system_prompt) =
     try_catch
       (bind_thrown
          (snd (makeRequest e ''/chat/completions''
                  (chat_options (chat_messages prompt system_prompt))))
          chat_completion_body)
       (\<lambda>error. Inr (chat_completion_failure error))"
  by (simp add: chat_completion_handler_def split: prod.splits)









section \<open>The list of models\<close>





section \<open>Absent fields of a parsed response\<close>

lemma read_prop_field: "response \<noteq> JNull \<Longrightarrow> read_prop response k = Inr (field response k)"
  by (cases response) simp_all

lemma opt_prop_field: "opt_prop (Some v) k = field v k"
  by (cases v) simp_all

lemma content_empty_falsy: "content_empty c \<Longrightarrow> \<not> truthy c"
  by (induction c rule: content_empty.induct) simp_all

lemma message_empty_falsy: "message_empty m \<Longrightarrow> \<not> truthy (opt_prop m ''content'')"
  by (cases m) (simp_all add: opt_prop_field content_empty_falsy)

lemma choices_empty_falsy:
  "choices_empty ch \<Longrightarrow> \<not> truthy (opt_prop (opt_prop (opt_index0 ch) ''message'') ''content'')"
proof (induction ch rule: choices_empty.induct)
  case (4 choice rest)
  then have "message_empty (opt_prop (Some choice) ''message'')"
    by (simp add: opt_prop_field)
  then show ?case
    by (simp add: message_empty_falsy)
qed simp_all

lemma reply_missing_content:
  assumes "response \<noteq> JNull" and "reply_missing response"
  shows "\<exists>c. first_choice_content response = Inr c \<and> \<not> truthy c"
  using assms choices_empty_falsy [of "field response ''choices''"]
  by (simp add: reply_missing_def first_choice_content_def read_prop_field bind_thrown_def)

lemma or_else_falsy: "\<not> truthy c \<Longrightarrow> or_else c d = d"
  by (cases c) (simp_all add: or_else_def)

text \<open>Reading a property of \<open>null\<close> throws in each of the three \<open>try\<close> blocks.\<close>

lemma null_response_throws:
  "isl (list_models_body JNull)" "isl (get_current_model_body JNull)"
  "isl (chat_completion_body JNull)"
  by (simp_all add: list_models_body_def get_current_model_body_def current_modelInfo_def
      chat_completion_body_def chat_completion_def first_choice_content_def bind_thrown_def)

text \<open>
  C9, as the code has it. For a parsed response other than \<open>null\<close> (an object, or a
  value that has no fields at all), nothing is thrown for absent fields: with \<open>data\<close>
  absent \<open>lmstudio_list_models\<close> returns the no-models text; with \<open>model\<close> absent both
  other handlers use \<open>unknown\<close>; with the choices/message/content chain missing or empty,
  \<open>lmstudio_get_current_model\<close> uses \<open>No response\<close> and \<open>lmstudio_chat_completion\<close> uses
  \<open>No response generated\<close>; with \<open>usage\<close> absent \<open>lmstudio_chat_completion\<close>, the one
  handler that reads it, uses the empty object, printed \<open>{}\<close>. With all of them absent
  the two handlers return exactly the texts made of these fallbacks. For the parsed
  response \<open>null\<close> the first property read throws inside the \<open>try\<close> block, and each
  handler returns the result of its \<open>catch\<close> block, the failure text.
\<close>

theorem absent_fields_have_fallbacks:
  "(response \<noteq> JNull \<longrightarrow>
     (snd (makeRequest e ''/models'' no_options) = Inr response \<and>
      field response ''data'' = None \<longrightarrow>
        snd (list_models_handler e)
          = Inr (text_result
              ''No models found in LM Studio. Make sure you have loaded models in LM Studio.'')) \<and>
     (field response ''model'' = None \<longrightarrow>
        current_modelInfo response = Inr (JStr ''unknown'') \<and>
        chat_model response = Inr (JStr ''unknown'')) \<and>
     (reply_missing response \<longrightarrow>
        current_message response = Inr (JStr ''No response'') \<and>
        chat_completion response = Inr (JStr ''No response generated'')) \<and>
     (field response ''usage'' = None \<longrightarrow> chat_usage response = Inr (JObj [])) \<and>
     (snd (makeRequest e ''/chat/completions''
             (chat_options [\<lparr>role = User, mcontent = ''What model are you?''\<rparr>])) = Inr response \<and>
      field response ''model'' = None \<and> reply_missing response \<longrightarrow>
        snd (get_current_model_handler e)
          = Inr (text_result (''Current Model: unknown'' @ nl @ nl
                              @ ''Model Response: No response''))) \<and>
     (snd (makeRequest e ''/chat/completions'' (chat_options (chat_messages prompt system_prompt)))
        = Inr response \<and>
      field response ''model'' = None \<and> reply_missing response \<and>
      field response ''usage'' = None \<longrightarrow>
        snd (chat_completion_handler e prompt system_prompt)
          = Inr (text_result (''**Model:** unknown'' @ nl @ nl @ ''**Response:**'' @ nl
                              @ ''No response generated'' @ nl @ nl @ ''**Usage:** {}'')))) \<and>
   (snd (makeRequest e ''/models'' no_options) = Inr JNull \<longrightarrow>
      (\<exists>err. snd (list_models_handler e) = Inr (list_models_failure err))) \<and>
   (snd (makeRequest e ''/chat/completions''
           (chat_options [\<lparr>role = User, mcontent = ''What model are you?''\<rparr>])) = Inr JNull \<longrightarrow>
      (\<exists>err. snd (get_current_model_handler e) = Inr (get_current_model_failure err))) \<and>
   (snd (makeRequest e ''/chat/completions'' (chat_options (chat_messages prompt system_prompt)))
      = Inr JNull \<longrightarrow>
      (\<exists>err. snd (chat_completion_handler e prompt system_prompt)
               = Inr (chat_completion_failure err)))"
proof -
  have data: "list_models_body response = Inr (text_result no_models_text)"
    if "response \<noteq> JNull" "field response ''data'' = None"
    using that by (simp add: list_models_body_def read_prop_field bind_thrown_def or_else_def)
  have model: "current_modelInfo response = Inr (JStr ''unknown'')"
      "chat_model response = Inr (JStr ''unknown'')"
    if "response \<noteq> JNull" "field response ''model'' = None"
    using that
    by (simp_all add: current_modelInfo_def chat_model_def read_prop_field bind_thrown_def
        or_else_def)
  have reply: "current_message response = Inr (JStr ''No response'')"
      "chat_completion response = Inr (JStr ''No response generated'')"
    if "response \<noteq> JNull" "reply_missing response"
    using reply_missing_content [OF that]
    by (auto simp: current_message_def chat_completion_def bind_thrown_def or_else_falsy)
  have usage: "chat_usage response = Inr (JObj [])"
    if "response \<noteq> JNull" "field response ''usage'' = None"
    using that by (simp add: chat_usage_def read_prop_field bind_thrown_def or_else_def)
  have current: "get_current_model_body response
        = Inr (text_result (''Current Model: unknown'' @ nl @ nl
                            @ ''Model Response: No response''))"
    if "response \<noteq> JNull" "field response ''model'' = None" "reply_missing response"
    using model(1) [OF that(1,2)] reply(1) [OF that(1,3)]
    by (simp add: get_current_model_body_def bind_thrown_def)
  have chat: "chat_completion_body response
        = Inr (text_result (''**Model:** unknown'' @ nl @ nl @ ''**Response:**'' @ nl
                            @ ''No response generated'' @ nl @ nl @ ''**Usage:** {}''))"
    if "response \<noteq> JNull" "field response ''model'' = None" "reply_missing response"
      "field response ''usage'' = None"
    using model(2) [OF that(1,2)] reply(2) [OF that(1,3)] usage [OF that(1,4)]
    by (simp add: chat_completion_body_def bind_thrown_def json_stringify_2_def)
  have caught: "\<exists>err. try_catch (bind_thrown (Inr JNull) block) (\<lambda>error. Inr (failure error))
                       = Inr (failure err)"
    if "isl (block JNull)" for block :: "json \<Rightarrow> js_thrown + tool_result" and failure
    using that by (cases "block JNull") (auto simp: try_catch_def bind_thrown_def)
  from data model reply usage current chat
    caught [of list_models_body list_models_failure, OF null_response_throws(1)]
    caught [of get_current_model_body get_current_model_failure, OF null_response_throws(2)]
    caught [of chat_completion_body chat_completion_failure, OF null_response_throws(3)]
  show ?thesis
    by (simp add: no_models_text_def list_models_result get_current_model_result
        chat_completion_result try_catch_def bind_thrown_def)
qed

theorem absent_fields_have_fallbacks_witness:
  "JObj [] \<noteq> JNull \<and>
   field (JObj []) ''data'' = None \<and> field (JObj []) ''model'' = None \<and>
   field (JObj []) ''usage'' = None \<and> reply_missing (JObj []) \<and>
   snd (makeRequest
      \<lparr>argv = [''node'', ''index.js''],
       fetch = always_responds \<lparr>status = 200, statusText = ''OK'', json_outcome = Inr (JObj [])\<rparr>\<rparr>
      ''/models'' no_options) = Inr (JObj []) \<and>
   snd (list_models_handler
      \<lparr>argv = [''node'', ''index.js''],
       fetch = always_responds \<lparr>status = 200, statusText = ''OK'', json_outcome = Inr (JObj [])\<rparr>\<rparr>)
     = Inr (text_result
         ''No models found in LM Studio. Make sure you have loaded models in LM Studio.'') \<and>
   snd (get_current_model_handler
      \<lparr>argv = [''node'', ''index.js''],
       fetch = always_responds \<lparr>status = 200, statusText = ''OK'', json_outcome = Inr (JObj [])\<rparr>\<rparr>)
     = Inr (text_result (''Current Model: unknown'' @ nl @ nl @ ''Model Response: No response'')) \<and>
   snd (chat_completion_handler
      \<lparr>argv = [''node'', ''index.js''],
       fetch = always_responds \<lparr>status = 200, statusText = ''OK'', json_outcome = Inr (JObj [])\<rparr>\<rparr>
      ''hi'' None)
     = Inr (text_result (''**Model:** unknown'' @ nl @ nl @ ''**Response:**'' @ nl
                         @ ''No response generated'' @ nl @ nl @ ''**Usage:** {}'')) \<and>
   chat_usage (JObj []) = Inr (JObj []) \<and>
   JArr [] \<noteq> JNull \<and> field (JArr []) ''data'' = None \<and>
   snd (list_models_handler
      \<lparr>argv = [''node'', ''index.js''],
       fetch = always_responds \<lparr>status = 200, statusText = ''OK'', json_outcome = Inr (JArr [])\<rparr>\<rparr>)
     = Inr (text_result
         ''No models found in LM Studio. Make sure you have loaded models in LM Studio.'') \<and>
   snd (makeRequest
      \<lparr>argv = [''node'', ''index.js''],
       fetch = always_responds \<lparr>status = 200, statusText = ''OK'', json_outcome = Inr JNull\<rparr>\<rparr>
      ''/models'' no_options) = Inr JNull \<and>
   (\<exists>err. snd (list_models_handler
      \<lparr>argv = [''node'', ''index.js''],
       fetch = always_responds \<lparr>status = 200, statusText = ''OK'', json_outcome = Inr JNull\<rparr>\<rparr>)
     = Inr (list_models_failure err))"
proof -
  let ?e = "\<lambda>v. \<lparr>argv = [''node'', ''index.js''],
                 fetch = always_responds \<lparr>status = 200, statusText = ''OK'', json_outcome = Inr v\<rparr>\<rparr>"
  have out: "snd (makeRequest (?e v) endpoint options) = Inr v" for v endpoint options
    by (simp add: makeRequest_def Let_def ok_def always_responds_def)
  have missing: "reply_missing (JObj [])"
    by (simp add: reply_missing_def)
  note object = absent_fields_have_fallbacks [of "JObj []" "?e (JObj [])" "''hi''" None]
  note array = absent_fields_have_fallbacks [of "JArr []" "?e (JArr [])" "''hi''" None]
  note null = absent_fields_have_fallbacks [of "JObj []" "?e JNull" "''hi''" None]
  from object out missing have o: "snd (list_models_handler (?e (JObj [])))
       = Inr (text_result
           ''No models found in LM Studio. Make sure you have loaded models in LM Studio.'')"
      "snd (get_current_model_handler (?e (JObj [])))
       = Inr (text_result (''Current Model: unknown'' @ nl @ nl @ ''Model Response: No response''))"
      "snd (chat_completion_handler (?e (JObj [])) ''hi'' None)
       = Inr (text_result (''**Model:** unknown'' @ nl @ nl @ ''**Response:**'' @ nl
                           @ ''No response generated'' @ nl @ nl @ ''**Usage:** {}''))"
      "chat_usage (JObj []) = Inr (JObj [])"
    by simp_all
  from array out have a: "snd (list_models_handler (?e (JArr [])))
       = Inr (text_result
           ''No models found in LM Studio. Make sure you have loaded models in LM Studio.'')"
    by simp
  from null out have n: "\<exists>err. snd (list_models_handler (?e JNull)) = Inr (list_models_failure err)"
    by simp
  from o a n out missing show ?thesis
    by simp
qed

text \<open>
  C9 as stated fails at the parsed response \<open>null\<close>, which has no \<open>data\<close> field: each
  \<open>try\<close> block throws, and \<open>lmstudio_list_models\<close> returns its failure text, not the
  no-models text.
\<close>

theorem null_response_is_not_defaulted:
  "isl (list_models_body JNull) \<and> isl (get_current_model_body JNull) \<and>
   isl (chat_completion_body JNull) \<and>
   snd (list_models_handler
      \<lparr>argv = [''node'', ''index.js''],
       fetch = always_responds \<lparr>status = 200, statusText = ''OK'', json_outcome = Inr JNull\<rparr>\<rparr>)
     = Inr (text_result (cross_mark @ '' Failed to list models'' @ nl
              @ ''Error: Cannot read properties of null (reading '' @ squote @ ''data'' @ squote
              @ '')'')) \<and>
   snd (list_models_handler
      \<lparr>argv = [''node'', ''index.js''],
       fetch = always_responds \<lparr>status = 200, statusText = ''OK'', json_outcome = Inr JNull\<rparr>\<rparr>)
     \<noteq> Inr (text_result
         ''No models found in LM Studio. Make sure you have loaded models in LM Studio.'')"
  by (simp add: list_models_body_def get_current_model_body_def current_modelInfo_def
      chat_completion_body_def chat_completion_def first_choice_content_def bind_thrown_def
      list_models_result makeRequest_def Let_def ok_def always_responds_def try_catch_def
      list_models_failure_def text_result_def cross_mark_def squote_def nl_def)

section \<open>The echo tool\<close>

text \<open>
  C6. For every string \<open>t\<close> and in every environment, invoking \<open>echo\<close> with \<open>{text: t}\<close>
  returns (it does not throw) a result whose only content block is a text block with
  exactly the text \<open>"Echo: "\<close> followed by \<open>t\<close>.
\<close>

theorem echo_returns_prefixed_text:
  "invoke e (Echo t) = ([], Inr \<lparr>content = [\<lparr>ctype = ''text'', ctext = ''Echo: '' @ t\<rparr>]\<rparr>)"
  by (simp add: echo_handler_def text_result_def)

section \<open>Outbound calls per invocation\<close>

text \<open>
  C7, as the code has it. An invocation of one of the three tools backed by LM Studio
  makes exactly one call to \<open>fetch\<close>; an invocation of \<open>echo\<close> makes none.
\<close>

theorem calls_per_invocation:
  "length (fst (invoke e tc)) = (case tc of Echo t \<Rightarrow> 0 | _ \<Rightarrow> 1)"
  by (cases tc)
     (simp_all add: echo_handler_def list_models_calls get_current_model_calls
        chat_completion_calls makeRequest_calls)

text \<open>
  C7 as stated fails for \<open>echo\<close>: its handler returns without any outbound call, so the
  number of calls of that invocation is not one.
\<close>

theorem echo_makes_no_call:
  "fst (echo_handler ''hi'') = [] \<and> length (fst (echo_handler ''hi'')) \<noteq> 1"
  by (simp add: echo_handler_def)

end
